theory Spec2Isabelle
  imports Complex_Main "HOL-Library.List_Lexorder" "HOL-Library.Multiset"
begin

section \<open>Python values\<close>

text \<open>
  The exceptions of the source that a modelled function can let escape. A function that
  can raise returns \<open>py_error + 'a\<close>, with \<open>Inl\<close> for the exception.
\<close>

datatype py_error =
  ZeroDivisionError | OSError | FileNotFoundError | NotADirectoryError | JSONDecodeError

text \<open>
  A Python \<open>str\<close> is a sequence of Unicode code points: \<open>len\<close>, slicing and
  \<open>split\<close> all count code points, and the source's literals are mostly Devanagari. A
  string is therefore a list of code points; \<open>ascii\<close> embeds an ASCII literal.
\<close>

type_synonym pystr = "nat list"

definition ascii :: "string \<Rightarrow> pystr" where
  "ascii s = map of_char s"

text \<open>
  Numbers. Python's \<open>int\<close> is \<open>int\<close>. A Python \<open>float\<close> is modelled by the real
  number it stands for: the calculators are read as the formulas they implement, without
  the rounding error of binary floating point (and without its overflow, infinities and
  NaN). \<open>round(x, 2)\<close> and the format \<open>.2f\<close> round to the nearest hundredth, a tie
  going to the even neighbour.
\<close>

definition round_half_even :: "real \<Rightarrow> int" where
  "round_half_even x =
     (let f = \<lfloor>x\<rfloor>; d = x - of_int f
      in if d < 1 / 2 then f
         else if 1 / 2 < d then f + 1
         else if even f then f else f + 1)"

definition round2 :: "real \<Rightarrow> real" where
  "round2 x = of_int (round_half_even (x * 100)) / 100"

section \<open>calc.py: the deterministic calculators\<close>

record sip_result =
  monthly_sip :: real
  total_investment :: real
  expected_returns :: real
  total_value :: real

record emi_result =
  monthly_emi :: real
  total_payment :: real
  total_interest :: real

text \<open>
  \<open>calculate_sip\<close> (calc.py, lines 17 to 66). The exponent \<open>n = years * 12\<close> is positive
  where the power is taken. The division by \<open>(1 + r) ** n - 1\<close> raises when that is zero.
\<close>

definition calculate_sip :: "real \<Rightarrow> int \<Rightarrow> real \<Rightarrow> py_error + sip_result" where
  "calculate_sip future_value years annual_rate =
     (if years \<le> 0 \<or> future_value \<le> 0 then
        Inr \<lparr>monthly_sip = 0, total_investment = 0, expected_returns = 0, total_value = 0\<rparr>
      else
        let r = annual_rate / 12 / 100;
            n = years * 12
        in case (if r = 0 then Inr (future_value / of_int n)
                 else if (1 + r) ^ nat n - 1 = 0 then Inl ZeroDivisionError
                 else Inr (future_value * r / ((1 + r) ^ nat n - 1))) of
             Inl e \<Rightarrow> Inl e
           | Inr pmt \<Rightarrow>
               let ti = pmt * of_int n;
                   er = future_value - ti
               in Inr \<lparr>monthly_sip = round2 pmt,
                        total_investment = round2 ti,
                        expected_returns = round2 er,
                        total_value = round2 future_value\<rparr>)"

text \<open>
  \<open>calculate_emi\<close> (calc.py, lines 69 to 114); its parameter \<open>principal\<close> is
  \<open>principal_amount\<close> here.
\<close>

definition calculate_emi :: "real \<Rightarrow> int \<Rightarrow> real \<Rightarrow> py_error + emi_result" where
  "calculate_emi principal_amount years annual_rate =
     (if years \<le> 0 \<or> principal_amount \<le> 0 then
        Inr \<lparr>monthly_emi = 0, total_payment = 0, total_interest = 0\<rparr>
      else
        let r = annual_rate / 12 / 100;
            n = years * 12
        in case (if r = 0 then Inr (principal_amount / of_int n)
                 else if (1 + r) ^ nat n - 1 = 0 then Inl ZeroDivisionError
                 else Inr (principal_amount * r * (1 + r) ^ nat n / ((1 + r) ^ nat n - 1))) of
             Inl e \<Rightarrow> Inl e
           | Inr emi \<Rightarrow>
               let tp = emi * of_int n;
                   tint = tp - principal_amount
               in Inr \<lparr>monthly_emi = round2 emi,
                        total_payment = round2 tp,
                        total_interest = round2 tint\<rparr>)"

subsection \<open>Formatting an amount\<close>


text \<open>\<open>str(n)\<close> for a natural number: its decimal digits, \<open>0\<close> being U+0030.\<close>

function str_nat :: "nat \<Rightarrow> pystr" where
  "str_nat n = (if n < 10 then [48 + n] else str_nat (n div 10) @ [48 + n mod 10])"
  by pat_completeness auto
termination
  by (relation "measure (\<lambda>n. n)") auto

declare str_nat.simps [simp del]








section \<open>utils.py: text and transcripts\<close>

subsection \<open>Shortening a text\<close>

text \<open>
  \<open>str.isspace\<close> on one character: the code points that \<open>str.split()\<close> treats as
  white space.
\<close>

definition is_space :: "nat \<Rightarrow> bool" where
  "is_space c \<longleftrightarrow>
     (9 \<le> c \<and> c \<le> 13) \<or> (28 \<le> c \<and> c \<le> 32) \<or> c = 133 \<or> c = 160 \<or> c = 5760
     \<or> (8192 \<le> c \<and> c \<le> 8202) \<or> c = 8232 \<or> c = 8233 \<or> c = 8239 \<or> c = 8287
     \<or> c = 12288"

text \<open>\<open>text.split()\<close>: the maximal runs of characters that are not white space.\<close>

function split_ws :: "pystr \<Rightarrow> pystr list" where
  "split_ws s =
     (let s' = dropWhile is_space s
      in if s' = [] then []
         else takeWhile (\<lambda>c. \<not> is_space c) s' # split_ws (dropWhile (\<lambda>c. \<not> is_space c) s'))"
  by pat_completeness auto
termination
proof (relation "measure length")
  show "wf (measure length)" by simp
next
  fix s s' :: pystr
  assume s': "s' = dropWhile is_space s" and ne: "s' \<noteq> []"
  then have "\<not> is_space (hd s')" using hd_dropWhile by metis
  then have "dropWhile (\<lambda>c. \<not> is_space c) s' = dropWhile (\<lambda>c. \<not> is_space c) (tl s')"
    using ne by (cases s') auto
  then have "length (dropWhile (\<lambda>c. \<not> is_space c) s') \<le> length (tl s')"
    using length_dropWhile_le [of "\<lambda>c. \<not> is_space c" "tl s'"] by simp
  also have "\<dots> < length s'" using ne by (cases s') auto
  also have "\<dots> \<le> length s" unfolding s' by (rule length_dropWhile_le)
  finally show "(dropWhile (\<lambda>c. \<not> is_space c) s', s) \<in> measure length" by simp
qed

declare split_ws.simps [simp del]

text \<open>\<open>sep.join(parts)\<close>.\<close>

fun join_str :: "pystr \<Rightarrow> pystr list \<Rightarrow> pystr" where
  "join_str sep [] = []"
| "join_str sep [p] = p"
| "join_str sep (p # q # ps) = p @ sep @ join_str sep (q # ps)"

text \<open>
  The slice \<open>s[:stop]\<close> for an integer \<open>stop\<close>: a negative one counts from the end.
\<close>

definition slice_to :: "int \<Rightarrow> 'a list \<Rightarrow> 'a list" where
  "slice_to stop s = take (nat (if stop < 0 then int (length s) + stop else stop)) s"

text \<open>
  \<open>s.rsplit(sep, 1)\<close> for a separator of one character: the text before the last
  separator and the text after it, or the whole text when it holds no separator.
\<close>

definition rsplit1 :: "nat \<Rightarrow> pystr \<Rightarrow> pystr list" where
  "rsplit1 sep s =
     (if sep \<in> set s then
        [rev (drop 1 (dropWhile (\<lambda>c. c \<noteq> sep) (rev s))),
         rev (takeWhile (\<lambda>c. c \<noteq> sep) (rev s))]
      else [s])"

text \<open>\<open>summarize_short\<close> (utils.py, lines 19 to 52).\<close>

definition summarize_short :: "pystr \<Rightarrow> int \<Rightarrow> pystr" where
  "summarize_short text max_length =
     (if text = [] then []
      else
        let text' = join_str (ascii '' '') (split_ws text)
        in if int (length text') \<le> max_length then text'
           else rsplit1 32 (slice_to max_length text') ! 0 @ ascii ''...'')"

subsection \<open>Saving and loading a transcript\<close>

text \<open>
  The values \<open>json.dump\<close> writes and \<open>json.load\<close> returns; a \<open>dict\<close> keeps the
  order of its keys. The arguments \<open>user_data\<close> and \<open>sip_calc\<close> are the items of two
  \<open>dict\<close>s with string keys.
\<close>

datatype json =
    JNull
  | JBool bool
  | JNumber real
  | JString pystr
  | JArray "json list"
  | JObject "(pystr \<times> json) list"





text \<open>\<open>os.path.join(a, b)\<close> on a POSIX system.\<close>

definition path_join :: "pystr \<Rightarrow> pystr \<Rightarrow> pystr" where
  "path_join a b =
     (if b \<noteq> [] \<and> hd b = 47 then b
      else if a = [] \<or> last a = 47 then a @ b
      else a @ ascii ''/'' @ b)"




subsection \<open>Listing the transcripts\<close>

text \<open>
  What \<open>list_conversations\<close> sees of the file system: a path is missing, or names
  something that is not a directory, or names a directory whose entries, in the order of
  \<open>os.listdir\<close>, have a name and the modification time and size that \<open>os.stat\<close>
  reports. The type \<open>'t\<close> is that of the time \<open>datetime.fromtimestamp\<close> returns.
\<close>

record 't dir_entry =
  name :: pystr
  st_mtime :: 't
  st_size :: nat

datatype 't path_state = Missing | NotDirectory | Directory "'t dir_entry list"

record conversation_entry =
  filename :: pystr
  filepath :: pystr
  timestamp :: pystr
  timestamp_readable :: pystr
  size_bytes :: nat
  size_kb :: real

text \<open>\<open>s.endswith(suffix)\<close>.\<close>

definition ends_with :: "pystr \<Rightarrow> pystr \<Rightarrow> bool" where
  "ends_with suffix s \<longleftrightarrow>
     length suffix \<le> length s \<and> drop (length s - length suffix) s = suffix"

text \<open>
  The entry built for one file (utils.py, lines 182 to 195). The two renderings of the
  modification time, \<open>isoformat()\<close> and \<open>strftime("%d %B %Y, %I:%M %p")\<close>, belong to
  the standard library and are parameters.
\<close>

definition conversation_of ::
  "('t \<Rightarrow> pystr) \<Rightarrow> ('t \<Rightarrow> pystr) \<Rightarrow> pystr \<Rightarrow> 't dir_entry \<Rightarrow> conversation_entry" where
  "conversation_of isoformat strftime output_dir e =
     \<lparr>filename = name e,
      filepath = path_join output_dir (name e),
      timestamp = isoformat (st_mtime e),
      timestamp_readable = strftime (st_mtime e),
      size_bytes = st_size e,
      size_kb = round2 (real (st_size e) / 1024)\<rparr>"

text \<open>
  \<open>list_conversations\<close> (utils.py, lines 160 to 200). \<open>list.sort\<close> with
  \<open>reverse=True\<close> is stable: it sorts the reversed list in ascending order and reverses
  the result. Strings compare lexicographically by code point.
\<close>

definition list_conversations ::
  "('t \<Rightarrow> pystr) \<Rightarrow> ('t \<Rightarrow> pystr) \<Rightarrow> (pystr \<Rightarrow> 't path_state) \<Rightarrow> pystr
     \<Rightarrow> py_error + conversation_entry list" where
  "list_conversations isoformat strftime fs output_dir =
     (case fs output_dir of
        Missing \<Rightarrow> Inr []
      | NotDirectory \<Rightarrow> Inl NotADirectoryError
      | Directory entries \<Rightarrow>
          let conversations =
                map (conversation_of isoformat strftime output_dir)
                  (filter (\<lambda>e. ends_with (ascii ''.json'') (name e)) entries)
          in Inr (rev (sort_key timestamp (rev conversations))))"

text \<open>
  The naming convention of the store, \<open>finance_plan_<YYYYMMDD_HHMMSS>.json\<close>, as
  \<open>save_conversation\<close> builds the name (utils.py, lines 127 and 128).
\<close>

definition is_digit :: "nat \<Rightarrow> bool" where
  "is_digit c \<longleftrightarrow> 48 \<le> c \<and> c \<le> 57"

definition is_transcript_name :: "pystr \<Rightarrow> bool" where
  "is_transcript_name n \<longleftrightarrow>
     length n = 33
     \<and> take 13 n = ascii ''finance_plan_''
     \<and> list_all is_digit (take 8 (drop 13 n))
     \<and> take 1 (drop 21 n) = ascii ''_''
     \<and> list_all is_digit (take 6 (drop 22 n))
     \<and> drop 28 n = ascii ''.json''"

section \<open>agents.py: the three agents and the pipeline\<close>

text \<open>
  String literals of the source are written as their code points; most are Devanagari.
  The rendering of a number with thousands separators (the format \<open>,\<close>) depends on
  whether the value is an \<open>int\<close> or a \<open>float\<close> and is a parameter,
  \<open>format_comma\<close>. The format \<open>.1f\<close> and \<open>str\<close> of an integer are defined.
\<close>

definition format_1f :: "real \<Rightarrow> pystr" where
  "format_1f x =
     (let c = nat (round_half_even (\<bar>x\<bar> * 10));
          body = str_nat (c div 10) @ ascii ''.'' @ [48 + c mod 10]
      in if x < 0 then ascii ''-'' @ body else body)"

definition str_int :: "int \<Rightarrow> pystr" where
  "str_int i = (if i < 0 then ascii ''-'' @ str_nat (nat (- i)) else str_nat (nat i))"

text \<open>\<open>s.strip()\<close>.\<close>

definition strip :: "pystr \<Rightarrow> pystr" where
  "strip s = rev (dropWhile is_space (rev (dropWhile is_space s)))"

text \<open>
  The keys of \<open>user_data\<close> that the agents read. \<open>sip_calc\<close> is the result of
  \<open>calculate_sip\<close>.
\<close>

record user_data =
  monthly_income :: real
  target_amount :: real
  years :: int
  risk_profile :: pystr

text \<open>
  The generator. \<open>llm.invoke\<close> is given the system message and the human message; it
  returns an object with a \<open>content\<close> attribute (a string) or without one (then
  \<open>str\<close> of the object is used), or it raises, and then \<open>str(e)\<close> and the formatted
  traceback are what the code keeps. The generator and the clock belong to the world
  outside, of type \<open>'w\<close>: an invocation changes the world, and
  \<open>datetime.now().isoformat()\<close> reads it. What \<open>respond\<close> prints is not modelled.
\<close>

datatype llm_response = WithContent pystr | WithoutContent pystr

datatype invocation = Returned llm_response | Raised pystr pystr

record 'w environment =
  invoke :: "'w \<Rightarrow> pystr \<Rightarrow> pystr \<Rightarrow> invocation \<times> 'w"
  now_isoformat :: "'w \<Rightarrow> pystr"
  format_comma :: "real \<Rightarrow> pystr"

text \<open>
  An entry of the conversation history: \<open>Answered role prompt context response timestamp\<close>
  for a call that returned, \<open>Failed role error traceback timestamp\<close> for one that raised.
\<close>

datatype history_entry =
    Answered pystr pystr pystr pystr pystr
  | Failed pystr pystr pystr pystr

record agent =
  role :: pystr
  system_prompt :: pystr
  conversation_history :: "history_entry list"

text \<open>The dataclass constructor with \<open>__post_init__\<close> (agents.py, lines 38 to 46).\<close>

definition agent_init :: "pystr \<Rightarrow> pystr \<Rightarrow> agent" where
  "agent_init role_label given_system_prompt =
     \<lparr>role = role_label,
      system_prompt =
        (if given_system_prompt = [] then
           [2310, 2346, 32, 2319, 2325, 32]
           @ role_label
           @ [32, 2361, 2376, 2306, 2404, 32, 2325, 2375, 2357, 2354, 32, 2361, 2367, 2306, 2342,
           2368, 32, 2350, 2375, 2306, 32, 2313, 2340, 2381, 2340, 2352, 32, 2342, 2375, 2306, 2404]
         else given_system_prompt),
      conversation_history = []\<rparr>"

text \<open>The two messages built by \<open>respond\<close> (agents.py, lines 60 to 72).\<close>

definition system_message :: "agent \<Rightarrow> pystr \<Rightarrow> pystr" where
  "system_message self context =
     [10, 2344, 2367, 2351, 2350, 58, 32, 2325, 2375, 2357, 2354, 32, 2342, 2375, 2357, 2344,
     2366, 2327, 2352, 2368, 32, 2350, 2375, 2306, 32, 2324, 2352, 32, 2360, 2367, 2352,
     2381, 2347, 2364, 32, 2361, 2367, 2306, 2342, 2368, 32, 2350, 2375, 2306, 32, 2313,
     2340, 2381, 2340, 2352, 32, 2342, 2375, 2306, 2404, 32, 2309, 2306, 2327, 2381, 2352,
     2375, 2332, 2368, 32, 2325, 2366, 32, 2313, 2346, 2351, 2379, 2327, 32, 2344, 32, 2325,
     2352, 2375, 2306, 2404, 10, 10]
     @ system_prompt self
     @ [10, 10]
     @ context
     @ [10]"

definition human_message :: "pystr \<Rightarrow> pystr" where
  "human_message prompt =
     [10, 2346, 2381, 2352, 2358, 2381, 2344, 58, 32]
     @ prompt
     @ [10, 10, 2313, 2340, 2381, 2340, 2352, 32, 40, 2325, 2375, 2357, 2354, 32, 2361, 2367,
     2306, 2342, 2368, 32, 2350, 2375, 2306, 41, 58, 10]"

text \<open>The text \<open>respond\<close> returns for a failure (agents.py, line 99).\<close>

definition error_msg :: "pystr \<Rightarrow> pystr" where
  "error_msg e =
     [2340, 2381, 2352, 2369, 2335, 2367, 58, 32]
     @ e"

text \<open>
  \<open>Agent.respond\<close> (agents.py, lines 48 to 106): the returned text, the agent with its
  history extended, and the world after the invocation.
\<close>

definition respond ::
  "'w environment \<Rightarrow> agent \<Rightarrow> 'w \<Rightarrow> pystr \<Rightarrow> pystr \<Rightarrow> pystr \<times> agent \<times> 'w" where
  "respond env self w prompt context =
     (case invoke env w (system_message self context) (human_message prompt) of
        (Returned llm_response, w') \<Rightarrow>
          let response = (case llm_response of WithContent c \<Rightarrow> c | WithoutContent s \<Rightarrow> s)
          in (strip response,
              self\<lparr>conversation_history := conversation_history self
                 @ [Answered (role self) prompt context response (now_isoformat env w')]\<rparr>,
              w')
      | (Raised e error_detail, w') \<Rightarrow>
          (error_msg e,
           self\<lparr>conversation_history := conversation_history self
              @ [Failed (role self) e error_detail (now_isoformat env w')]\<rparr>,
           w'))"

text \<open>\<open>AdvisorAgent\<close> (agents.py, lines 109 to 161).\<close>

definition advisor_agent :: agent where
  "advisor_agent =
     agent_init
      [2357, 2367, 2340, 2381, 2340, 2368, 2351, 32, 2360, 2354, 2366, 2361, 2325, 2366, 2352]
      [2310, 2346, 32, 2319, 2325, 32, 2309, 2344, 2369, 2349, 2357, 2368, 32, 2357, 2367, 2340,
      2381, 2340, 2368, 2351, 32, 2360, 2354, 2366, 2361, 2325, 2366, 2352, 32, 2361, 2376,
      2306, 32, 2332, 2379, 32, 2349, 2366, 2352, 2340, 2368, 2351, 32, 2344, 2367, 2357, 2375,
      2358, 2325, 2379, 2306, 32, 2325, 2379, 32, 2360, 2354, 2366, 2361, 32, 2342, 2375, 2340,
      2375, 32, 2361, 2376, 2306, 2404]"

definition advisor_prompt :: "'w environment \<Rightarrow> user_data \<Rightarrow> sip_result \<Rightarrow> pystr" where
  "advisor_prompt env user_data sip_calc =
     [10, 2313, 2346, 2351, 2379, 2327, 2325, 2352, 2381, 2340, 2366, 32, 2325, 2368, 32,
     2332, 2366, 2344, 2325, 2366, 2352, 2368, 58, 10, 45, 32, 2350, 2366, 2360, 2367, 2325,
     32, 2310, 2351, 58, 32, 8377]
     @ format_comma env (monthly_income user_data)
     @ [10, 45, 32, 2354, 2325, 2381, 2359, 2381, 2351, 32, 2352, 2366, 2358, 2367, 58, 32, 8377]
     @ format_comma env (target_amount user_data)
     @ [10, 45, 32, 2360, 2350, 2351, 32, 2360, 2368, 2350, 2366, 58, 32]
     @ str_int (years user_data)
     @ [32, 2357, 2352, 2381, 2359, 10, 45, 32, 2332, 2379, 2326, 2367, 2350, 32, 2346, 2381,
     2352, 2379, 2347, 2366, 2311, 2354, 58, 32]
     @ risk_profile user_data
     @ [10, 10, 2327, 2339, 2344, 2366, 32, 2346, 2352, 2367, 2339, 2366, 2350, 58, 10, 45, 32,
     2310, 2357, 2358, 2381, 2351, 2325, 32, 2350, 2366, 2360, 2367, 2325, 32, 83, 73, 80,
     58, 32, 8377]
     @ format_comma env (monthly_sip sip_calc)
     @ [10, 45, 32, 2325, 2369, 2354, 32, 2344, 2367, 2357, 2375, 2358, 58, 32, 8377]
     @ format_comma env (total_investment sip_calc)
     @ [10, 45, 32, 2309, 2346, 2375, 2325, 2381, 2359, 2367, 2340, 32, 2352, 2367, 2335, 2352,
     2381, 2344, 58, 32, 8377]
     @ format_comma env (expected_returns sip_calc)
     @ [10, 10, 2325, 2371, 2346, 2351, 2366, 32, 2313, 2346, 2351, 2379, 2327, 2325, 2352,
     2381, 2340, 2366, 32, 2325, 2379, 32, 2346, 2381, 2352, 2366, 2352, 2306, 2349, 2367,
     2325, 32, 2357, 2367, 2340, 2381, 2340, 2368, 2351, 32, 2360, 2354, 2366, 2361, 32,
     2342, 2375, 2306, 2404, 32, 2344, 2367, 2350, 2381, 2344, 2354, 2367, 2326, 2367, 2340,
     32, 2348, 2366, 2340, 2379, 2306, 32, 2325, 2366, 32, 2313, 2354, 2381, 2354, 2375,
     2326, 32, 2325, 2352, 2375, 2306, 58, 10, 49, 46, 32, 2325, 2381, 2351, 2366, 32, 2351,
     2361, 32, 2354, 2325, 2381, 2359, 2381, 2351, 32, 2313, 2344, 2325, 2368, 32, 2310,
     2351, 32, 2325, 2375, 32, 2309, 2344, 2369, 2360, 2366, 2352, 32, 2360, 2306, 2349,
     2357, 32, 2361, 2376, 63, 10, 50, 46, 32, 2325, 2367, 2360, 32, 2346, 2381, 2352, 2325,
     2366, 2352, 32, 2325, 2375, 32, 2344, 2367, 2357, 2375, 2358, 32, 2325, 2368, 32, 2360,
     2367, 2347, 2366, 2352, 2367, 2358, 32, 2325, 2352, 2375, 2306, 2327, 2375, 63, 10, 51,
     46, 32, 2348, 2330, 2340, 32, 2324, 2352, 32, 2326, 2352, 2381, 2330, 32, 2325, 2366,
     32, 2309, 2344, 2369, 2346, 2366, 2340, 32, 2325, 2381, 2351, 2366, 32, 2361, 2379,
     2344, 2366, 32, 2330, 2366, 2361, 2367, 2319, 63, 10, 10, 2360, 2306, 2325, 2381, 2359,
     2367, 2346, 2381, 2340, 32, 2324, 2352, 32, 2360, 2381, 2346, 2359, 2381, 2335, 32,
     2313, 2340, 2381, 2340, 2352, 32, 2342, 2375, 2306, 2404, 10]"

definition advisor_context :: pystr where
  "advisor_context =
      [2349, 2366, 2352, 2340, 2368, 2351, 32, 2348, 2366, 2332, 2366, 2352, 32, 2324, 2352, 32,
      2344, 2367, 2357, 2375, 2358, 32, 2357, 2367, 2325, 2354, 2381, 2346, 2379, 2306, 32,
      2325, 2375, 32, 2348, 2366, 2352, 2375, 32, 2350, 2375, 2306, 32, 2360, 2354, 2366, 2361,
      32, 2342, 2375, 2306, 2404]"

definition advisor_analyze ::
  "'w environment \<Rightarrow> agent \<Rightarrow> 'w \<Rightarrow> user_data \<Rightarrow> sip_result \<Rightarrow> pystr \<times> agent \<times> 'w" where
  "advisor_analyze env self w user_data sip_calc =
     respond env self w (advisor_prompt env user_data sip_calc) advisor_context"

text \<open>
  \<open>RiskAnalystAgent\<close> (agents.py, lines 164 to 221). The ratio is computed before
  \<open>respond\<close> is called; the division raises when the income is zero.
\<close>

definition risk_analyst_agent :: agent where
  "risk_analyst_agent =
     agent_init
      [2332, 2379, 2326, 2367, 2350, 32, 2357, 2367, 2358, 2381, 2354, 2375, 2359, 2325]
      [2310, 2346, 32, 2319, 2325, 32, 2332, 2379, 2326, 2367, 2350, 32, 2357, 2367, 2358, 2381,
      2354, 2375, 2359, 2339, 32, 2357, 2367, 2358, 2375, 2359, 2332, 2381, 2334, 32, 2361,
      2376, 2306, 32, 2332, 2379, 32, 2357, 2367, 2340, 2381, 2340, 2368, 2351, 32, 2360, 2369,
      2352, 2325, 2381, 2359, 2366, 32, 2346, 2352, 32, 2343, 2381, 2351, 2366, 2344, 32, 2342,
      2375, 2340, 2375, 32, 2361, 2376, 2306, 2404]"

definition risk_prompt ::
  "'w environment \<Rightarrow> user_data \<Rightarrow> sip_result \<Rightarrow> pystr \<Rightarrow> real \<Rightarrow> pystr" where
  "risk_prompt env user_data sip_calc advisor_suggestion sip_to_income_ratio =
     [10, 2360, 2354, 2366, 2361, 2325, 2366, 2352, 32, 2325, 2366, 32, 2360, 2369, 2333,
     2366, 2357, 58, 10]
     @ advisor_suggestion
     @ [10, 10, 2357, 2367, 2340, 2381, 2340, 2368, 2351, 32, 2357, 2367, 2358, 2381, 2354,
     2375, 2359, 2339, 58, 10, 45, 32, 2310, 2351, 32, 2325, 2366, 32]
     @ format_1f sip_to_income_ratio
     @ [37, 32, 83, 73, 80, 32, 2350, 2375, 2306, 32, 2332, 2366, 2319, 2327, 2366, 10, 45, 32,
     2332, 2379, 2326, 2367, 2350, 32, 2360, 2381, 2340, 2352, 58, 32]
     @ risk_profile user_data
     @ [10, 45, 32, 2344, 2367, 2357, 2375, 2358, 32, 2309, 2357, 2343, 2367, 58, 32]
     @ str_int (years user_data)
     @ [32, 2357, 2352, 2381, 2359, 10, 45, 32, 2350, 2366, 2360, 2367, 2325, 32, 2310, 2351,
     58, 32, 8377]
     @ format_comma env (monthly_income user_data)
     @ [10, 45, 32, 2310, 2357, 2358, 2381, 2351, 2325, 32, 83, 73, 80, 58, 32, 8377]
     @ format_comma env (monthly_sip sip_calc)
     @ [10, 10, 2325, 2371, 2346, 2351, 2366, 32, 2332, 2379, 2326, 2367, 2350, 32, 2357, 2367,
     2358, 2381, 2354, 2375, 2359, 2339, 32, 2325, 2352, 2375, 2306, 58, 10, 49, 46, 32,
     2325, 2381, 2351, 2366, 32, 2351, 2361, 32, 2351, 2379, 2332, 2344, 2366, 32, 2360,
     2369, 2352, 2325, 2381, 2359, 2367, 2340, 32, 2361, 2376, 63, 10, 50, 46, 32, 2325,
     2381, 2351, 2366, 32, 2325, 2379, 2312, 32, 2332, 2379, 2326, 2367, 2350, 32, 2361,
     2376, 2306, 63, 10, 51, 46, 32, 2360, 2369, 2352, 2325, 2381, 2359, 2367, 2340, 32,
     2357, 2367, 2325, 2354, 2381, 2346, 32, 2325, 2381, 2351, 2366, 32, 2361, 2376, 2306,
     63, 10, 52, 46, 32, 2310, 2346, 2366, 2340, 2325, 2366, 2354, 2368, 2344, 32, 2344,
     2367, 2343, 2367, 32, 2325, 2368, 32, 2360, 2367, 2347, 2366, 2352, 2367, 2358, 32, 40,
     2310, 2351, 32, 2325, 2366, 32, 54, 45, 49, 50, 32, 2350, 2361, 2368, 2344, 2375, 41,
     10, 10, 2360, 2306, 2325, 2381, 2359, 2367, 2346, 2381, 2340, 32, 2324, 2352, 32, 2360,
     2381, 2346, 2359, 2381, 2335, 32, 2313, 2340, 2381, 2340, 2352, 32, 2342, 2375, 2306,
     2404, 10]"

definition risk_context :: pystr where
  "risk_context =
      [2357, 2367, 2340, 2381, 2340, 2368, 2351, 32, 2360, 2369, 2352, 2325, 2381, 2359, 2366,
      32, 2324, 2352, 32, 2332, 2379, 2326, 2367, 2350, 32, 2346, 2381, 2352, 2348, 2306, 2343,
      2344, 32, 2346, 2352, 32, 2343, 2381, 2351, 2366, 2344, 32, 2342, 2375, 2306, 2404]"

definition risk_analyze ::
  "'w environment \<Rightarrow> agent \<Rightarrow> 'w \<Rightarrow> user_data \<Rightarrow> sip_result \<Rightarrow> pystr
     \<Rightarrow> py_error + pystr \<times> agent \<times> 'w" where
  "risk_analyze env self w user_data sip_calc advisor_suggestion =
     (if monthly_income user_data = 0 then Inl ZeroDivisionError
      else
        let sip_to_income_ratio = monthly_sip sip_calc / monthly_income user_data * 100
        in Inr (respond env self w
                 (risk_prompt env user_data sip_calc advisor_suggestion sip_to_income_ratio)
                 risk_context))"

text \<open>\<open>PlannerAgent\<close> (agents.py, lines 224 to 296).\<close>

definition planner_agent :: agent where
  "planner_agent =
     agent_init
      [2357, 2367, 2340, 2381, 2340, 2368, 2351, 32, 2351, 2379, 2332, 2344, 2366, 2325, 2352,
      2381, 2340, 2381, 2340, 2366]
      [2310, 2346, 32, 2319, 2325, 32, 2357, 2381, 2351, 2366, 2346, 2325, 32, 2357, 2367, 2340,
      2381, 2340, 2368, 2351, 32, 2351, 2379, 2332, 2344, 2366, 2325, 2366, 2352, 32, 2361,
      2376, 2306, 32, 2332, 2379, 32, 2357, 2381, 2351, 2366, 2357, 2361, 2366, 2352, 2367,
      2325, 32, 2351, 2379, 2332, 2344, 2366, 2319, 2306, 32, 2348, 2344, 2366, 2340, 2375, 32,
      2361, 2376, 2306, 2404]"

definition planner_prompt ::
  "'w environment \<Rightarrow> user_data \<Rightarrow> sip_result \<Rightarrow> pystr \<Rightarrow> pystr \<Rightarrow> pystr" where
  "planner_prompt env user_data sip_calc advisor_advice risk_analysis =
     [10, 2360, 2354, 2366, 2361, 2325, 2366, 2352, 32, 2325, 2368, 32, 2352, 2366, 2351, 58,
     10]
     @ advisor_advice
     @ [10, 10, 2332, 2379, 2326, 2367, 2350, 32, 2357, 2367, 2358, 2381, 2354, 2375, 2359,
     2325, 32, 2325, 2368, 32, 2352, 2366, 2351, 58, 10]
     @ risk_analysis
     @ [10, 10, 2313, 2346, 2351, 2379, 2327, 2325, 2352, 2381, 2340, 2366, 32, 2337, 2375,
     2335, 2366, 58, 10, 45, 32, 2350, 2366, 2360, 2367, 2325, 32, 2310, 2351, 58, 32, 8377]
     @ format_comma env (monthly_income user_data)
     @ [10, 45, 32, 2354, 2325, 2381, 2359, 2381, 2351, 58, 32, 8377]
     @ format_comma env (target_amount user_data)
     @ [32, 40]
     @ str_int (years user_data)
     @ [32, 2357, 2352, 2381, 2359, 32, 2350, 2375, 2306, 41, 10, 45, 32, 2310, 2357, 2358,
     2381, 2351, 2325, 32, 83, 73, 80, 58, 32, 8377]
     @ format_comma env (monthly_sip sip_calc)
     @ [10, 45, 32, 2332, 2379, 2326, 2367, 2350, 32, 2360, 2381, 2340, 2352, 58, 32]
     @ risk_profile user_data
     @ [10, 10, 2325, 2371, 2346, 2351, 2366, 32, 2319, 2325, 32, 2357, 2367, 2360, 2381, 2340,
     2371, 2340, 32, 2357, 2367, 2340, 2381, 2340, 2368, 2351, 32, 2351, 2379, 2332, 2344,
     2366, 32, 2348, 2344, 2366, 2319, 2306, 32, 2332, 2367, 2360, 2350, 2375, 2306, 32,
     2358, 2366, 2350, 2367, 2354, 32, 2361, 2379, 58, 10, 10, 49, 46, 32, 2350, 2366, 2360,
     2367, 2325, 32, 2348, 2332, 2335, 32, 2357, 2367, 2349, 2366, 2332, 2344, 32, 40, 2310,
     2351, 32, 2325, 2366, 32, 2346, 2381, 2352, 2340, 2367, 2358, 2340, 41, 58, 10, 32, 32,
     32, 45, 32, 2310, 2357, 2358, 2381, 2351, 2325, 32, 2326, 2352, 2381, 2330, 32, 40,
     2325, 2367, 2352, 2366, 2351, 2366, 44, 32, 2349, 2379, 2332, 2344, 44, 32, 2348, 2367,
     2354, 41, 58, 32, 95, 95, 37, 32, 40, 8377, 95, 95, 41, 10, 32, 32, 32, 45, 32, 2348,
     2330, 2340, 47, 2344, 2367, 2357, 2375, 2358, 32, 40, 83, 73, 80, 41, 58, 32, 95, 95,
     37, 32, 40, 8377, 95, 95, 41, 10, 32, 32, 32, 45, 32, 2310, 2346, 2366, 2340, 2325,
     2366, 2354, 2368, 2344, 32, 2344, 2367, 2343, 2367, 58, 32, 95, 95, 37, 32, 40, 8377,
     95, 95, 41, 10, 32, 32, 32, 45, 32, 2357, 2367, 2357, 2375, 2325, 2366, 2343, 2368,
     2344, 32, 2326, 2352, 2381, 2330, 58, 32, 95, 95, 37, 32, 40, 8377, 95, 95, 41, 10, 10,
     50, 46, 32, 2344, 2367, 2357, 2375, 2358, 32, 2352, 2339, 2344, 2368, 2340, 2367, 58,
     10, 32, 32, 32, 45, 32, 83, 73, 80, 32, 2352, 2366, 2358, 2367, 58, 32, 8377]
     @ format_comma env (monthly_sip sip_calc)
     @ [10, 32, 32, 32, 45, 32, 2344, 2367, 2357, 2375, 2358, 32, 2346, 2381, 2352, 2325, 2366,
     2352, 32, 40, 2311, 2325, 2381, 2357, 2367, 2335, 2368, 47, 2337, 2375, 2335, 47, 2361,
     2366, 2311, 2348, 2381, 2352, 2367, 2337, 41, 10, 32, 32, 32, 45, 32, 2309, 2344, 2381,
     2351, 32, 2344, 2367, 2357, 2375, 2358, 32, 2360, 2366, 2343, 2344, 10, 10, 51, 46, 32,
     2325, 2366, 2352, 2381, 2351, 32, 2351, 2379, 2332, 2344, 2366, 58, 10, 32, 32, 32, 45,
     32, 2346, 2361, 2354, 2375, 32, 51, 32, 2350, 2361, 2368, 2344, 2375, 32, 2350, 2375,
     2306, 32, 2325, 2381, 2351, 2366, 32, 2325, 2352, 2375, 2306, 10, 32, 32, 32, 45, 32,
     54, 32, 2350, 2361, 2368, 2344, 2375, 32, 2325, 2368, 32, 2351, 2379, 2332, 2344, 2366,
     10, 32, 32, 32, 45, 32, 49, 50, 32, 2350, 2361, 2368, 2344, 2375, 32, 2325, 2368, 32,
     2351, 2379, 2332, 2344, 2366, 10, 10, 52, 46, 32, 2332, 2379, 2326, 2367, 2350, 32,
     2330, 2375, 2340, 2366, 2357, 2344, 2368, 10, 10, 2360, 2306, 2325, 2381, 2359, 2367,
     2346, 2381, 2340, 44, 32, 2360, 2381, 2346, 2359, 2381, 2335, 32, 2324, 2352, 32, 2357,
     2381, 2351, 2366, 2357, 2361, 2366, 2352, 2367, 2325, 32, 2351, 2379, 2332, 2344, 2366,
     32, 2348, 2344, 2366, 2319, 2306, 2404, 10]"

definition planner_context :: pystr where
  "planner_context =
      [2319, 2325, 32, 2360, 2306, 2352, 2330, 2367, 2340, 32, 2324, 2352, 32, 2325, 2366, 2352,
      2381, 2351, 2366, 2344, 2381, 2357, 2351, 2344, 32, 2351, 2379, 2327, 2381, 2351, 32,
      2351, 2379, 2332, 2344, 2366, 32, 2348, 2344, 2366, 2319, 2306, 2404]"

definition create_plan ::
  "'w environment \<Rightarrow> agent \<Rightarrow> 'w \<Rightarrow> user_data \<Rightarrow> sip_result \<Rightarrow> pystr \<Rightarrow> pystr
     \<Rightarrow> pystr \<times> agent \<times> 'w" where
  "create_plan env self w user_data sip_calc advisor_advice risk_analysis =
     respond env self w (planner_prompt env user_data sip_calc advisor_advice risk_analysis)
       planner_context"

text \<open>
  \<open>run_multi_agent_flow\<close> (agents.py, lines 299 to 362): the three texts and the world
  after the last call, or the exception that escaped. The three agents are local to the
  call; their histories are dropped with them.
\<close>

definition run_multi_agent_flow ::
  "'w environment \<Rightarrow> 'w \<Rightarrow> user_data \<Rightarrow> sip_result
     \<Rightarrow> py_error + (pystr \<times> pystr \<times> pystr) \<times> 'w" where
  "run_multi_agent_flow env w user_data sip_calc =
     (let advisor = advisor_agent;
          risk_analyst = risk_analyst_agent;
          planner = planner_agent;
          (advisor_output, advisor', w1) = advisor_analyze env advisor w user_data sip_calc
      in case risk_analyze env risk_analyst w1 user_data sip_calc advisor_output of
           Inl e \<Rightarrow> Inl e
         | Inr (risk_output, risk_analyst', w2) \<Rightarrow>
             let (planner_output, planner', w3) =
                   create_plan env planner w2 user_data sip_calc advisor_output risk_output
             in Inr ((advisor_output, risk_output, planner_output), w3))"

text \<open>
  The text \<open>respond\<close> returns, as a function of what the invocation did: the stripped
  content, or the error text (agents.py, lines 79 to 82, 93, 99 and 106).
\<close>

definition reply_text :: "invocation \<Rightarrow> pystr" where
  "reply_text outcome =
     (case outcome of
        Returned (WithContent c) \<Rightarrow> strip c
      | Returned (WithoutContent s) \<Rightarrow> strip s
      | Raised e error_detail \<Rightarrow> error_msg e)"

text \<open>
  Whether an invocation returned a text that holds a character that is not white space.
\<close>

definition returned_visible_text :: "invocation \<Rightarrow> bool" where
  "returned_visible_text outcome =
     (case outcome of
        Returned (WithContent c) \<Rightarrow> \<not> list_all is_space c
      | Returned (WithoutContent s) \<Rightarrow> \<not> list_all is_space s
      | Raised e error_detail \<Rightarrow> False)"

subsection \<open>Sample inputs\<close>

text \<open>
  The inputs of the example in the docstring of \<open>run_multi_agent_flow\<close> (agents.py,
  lines 335 to 341), the same with an income of zero, and a generator that answers its
  \<open>k\<close>-th call as a script says: its world is the number of calls made so far.
\<close>

definition example_user_data :: user_data where
  "example_user_data =
     \<lparr>monthly_income = 50000, target_amount = 1000000, years = 5,
      risk_profile = [2350, 2343, 2381, 2351, 2350, 32, 2332, 2379, 2326, 2367, 2350]\<rparr>"

definition example_sip_calc :: sip_result where
  "example_sip_calc =
     \<lparr>monthly_sip = 12244.45, total_investment = 734666.86,
      expected_returns = 265333.14, total_value = 1000000\<rparr>"

definition scripted_environment :: "(nat \<Rightarrow> invocation) \<Rightarrow> nat environment" where
  "scripted_environment script =
     \<lparr>invoke = (\<lambda>w system human. (script w, w + 1)),
      now_isoformat = (\<lambda>w. str_nat w),
      format_comma = (\<lambda>x. str_int \<lfloor>x\<rfloor>)\<rparr>"

section \<open>Properties of the calculators\<close>

subsection \<open>Degenerate inputs\<close>

text \<open>
  Claim C2. Whenever the target (or the principal) is not positive, or the number of years
  is not positive, \<open>calculate_sip\<close> returns the result whose four fields are zero and
  \<open>calculate_emi\<close> the result whose three fields are zero: a returned value (\<open>Inr\<close>),
  not an exception.
\<close>

theorem degenerate_inputs_give_zero_results:
  "(future_value \<le> 0 \<or> yrs \<le> 0 \<longrightarrow>
      calculate_sip future_value yrs annual_rate =
        Inr \<lparr>monthly_sip = 0, total_investment = 0, expected_returns = 0, total_value = 0\<rparr>)
   \<and> (principal_amount \<le> 0 \<or> yrs \<le> 0 \<longrightarrow>
      calculate_emi principal_amount yrs annual_rate =
        Inr \<lparr>monthly_emi = 0, total_payment = 0, total_interest = 0\<rparr>)"
  by (auto simp add: calculate_sip_def calculate_emi_def)

theorem degenerate_inputs_give_zero_results_witness:
  "calculate_sip 0 5 12 =
     Inr \<lparr>monthly_sip = 0, total_investment = 0, expected_returns = 0, total_value = 0\<rparr>
   \<and> calculate_sip 1000000 0 12 =
     Inr \<lparr>monthly_sip = 0, total_investment = 0, expected_returns = 0, total_value = 0\<rparr>
   \<and> calculate_emi (- 1) 0 12 =
     Inr \<lparr>monthly_emi = 0, total_payment = 0, total_interest = 0\<rparr>"
  using degenerate_inputs_give_zero_results [of 0 5 12 "- 1" ]
    degenerate_inputs_give_zero_results [of 1000000 0 12 "- 1"]
  by simp

subsection \<open>The branch of the annuity formula\<close>

lemma calculate_sip_regular:
  assumes "0 < yrs" "0 < future_value"
    and "r = annual_rate / 12 / 100" "n = nat (yrs * 12)"
    and "r \<noteq> 0" "(1 + r) ^ n - 1 \<noteq> 0"
    and "pmt = future_value * r / ((1 + r) ^ n - 1)"
  shows "calculate_sip future_value yrs annual_rate =
        Inr \<lparr>monthly_sip = round2 pmt, total_investment = round2 (pmt * real n),
             expected_returns = round2 (future_value - pmt * real n),
             total_value = round2 future_value\<rparr>"
proof -
  have r: "annual_rate / 12 / 100 = r" using assms(3) by (rule sym)
  show ?thesis
    unfolding calculate_sip_def Let_def r using assms(1,2,4-) by simp
qed


subsection \<open>The worked example\<close>

lemma calculate_sip_worked:
  "calculate_sip 1000000 5 12 =
     Inr \<lparr>monthly_sip = 12244.45, total_investment = 734666.86,
          expected_returns = 265333.14, total_value = 1000000\<rparr>"
  by (simp add: calculate_sip_def round2_def round_half_even_def Let_def power_divide)

text \<open>
  Claim C1, as the code has it. For a target of 1000000 over 5 years at 12 percent,
  \<open>calculate_sip\<close> returns the monthly contribution 12244.45, which is the
  ordinary-annuity payment \<open>FV * r / ((1 + r) ^ 60 - 1)\<close> at \<open>r = 12 / 12 / 100\<close>
  rounded to two decimals. The total invested is 60 times the unrounded payment, rounded:
  734666.86, and the expected returns are the target minus that product, rounded:
  265333.14.
\<close>

theorem calculate_sip_worked_example:
  "calculate_sip 1000000 5 12 =
     Inr \<lparr>monthly_sip = 12244.45, total_investment = 734666.86,
          expected_returns = 265333.14, total_value = 1000000\<rparr>
   \<and> calculate_sip 1000000 5 12 =
     Inr \<lparr>monthly_sip = round2 (1000000 * (12 / 12 / 100) / ((1 + 12 / 12 / 100) ^ 60 - 1)),
          total_investment =
            round2 (1000000 * (12 / 12 / 100) / ((1 + 12 / 12 / 100) ^ 60 - 1) * 60),
          expected_returns =
            round2 (1000000 - 1000000 * (12 / 12 / 100) / ((1 + 12 / 12 / 100) ^ 60 - 1) * 60),
          total_value = round2 1000000\<rparr>"
proof
  show "calculate_sip 1000000 5 12 =
     Inr \<lparr>monthly_sip = 12244.45, total_investment = 734666.86,
          expected_returns = 265333.14, total_value = 1000000\<rparr>"
    by (rule calculate_sip_worked)
  have r: "(12::real) / 12 / 100 \<noteq> 0" by simp
  have d: "(1 + (12::real) / 12 / 100) ^ nat (5 * 12) - 1 \<noteq> 0"
    by (simp add: power_divide)
  show "calculate_sip 1000000 5 12 =
     Inr \<lparr>monthly_sip = round2 (1000000 * (12 / 12 / 100) / ((1 + 12 / 12 / 100) ^ 60 - 1)),
          total_investment =
            round2 (1000000 * (12 / 12 / 100) / ((1 + 12 / 12 / 100) ^ 60 - 1) * 60),
          expected_returns =
            round2 (1000000 - 1000000 * (12 / 12 / 100) / ((1 + 12 / 12 / 100) ^ 60 - 1) * 60),
          total_value = round2 1000000\<rparr>"
    using calculate_sip_regular [OF _ _ refl refl r d refl, of 1000000] by simp
qed

text \<open>
  The values 734667.00 and 265333.00 are those of 60 times the rounded payment; the
  code multiplies the unrounded one, and its results are 0.14 away from them.
\<close>

theorem calculate_sip_worked_example_counterexample:
  "calculate_sip 1000000 5 12 =
     Inr \<lparr>monthly_sip = 12244.45, total_investment = 734666.86,
          expected_returns = 265333.14, total_value = 1000000\<rparr>
   \<and> \<not> \<bar>total_investment (projr (calculate_sip 1000000 5 12)) - 734667\<bar> \<le> 0.01
   \<and> \<not> \<bar>expected_returns (projr (calculate_sip 1000000 5 12)) - 265333\<bar> \<le> 0.01"
  by (simp add: calculate_sip_worked)

subsection \<open>Non-negative results\<close>










subsection \<open>Formatting in the Indian numbering system\<close>















section \<open>Properties of the text helper\<close>

lemma split_ws_Nil: "dropWhile is_space s = [] \<Longrightarrow> split_ws s = []"
  by (subst split_ws.simps) (simp only: Let_def refl if_True)

lemma split_ws_Cons:
  "dropWhile is_space s \<noteq> [] \<Longrightarrow>
     split_ws s = takeWhile (\<lambda>c. \<not> is_space c) (dropWhile is_space s)
       # split_ws (dropWhile (\<lambda>c. \<not> is_space c) (dropWhile is_space s))"
  by (subst split_ws.simps) (simp only: Let_def if_False)

lemma split_ws_words:
  "w \<in> set (split_ws s) \<Longrightarrow> w \<noteq> [] \<and> (\<forall>c\<in>set w. \<not> is_space c)"
proof (induction s arbitrary: w rule: split_ws.induct)
  case (1 s)
  let ?s' = "dropWhile is_space s"
  show ?case
  proof (cases "?s' = []")
    case True
    with "1.prems" show ?thesis by (simp only: split_ws_Nil) simp
  next
    case False
    then have hd: "\<not> is_space (hd ?s')" using hd_dropWhile by metis
    from "1.prems"
    have "w = takeWhile (\<lambda>c. \<not> is_space c) ?s'
        \<or> w \<in> set (split_ws (dropWhile (\<lambda>c. \<not> is_space c) ?s'))"
      unfolding split_ws_Cons [OF False] by simp
    then show ?thesis
    proof
      assume w: "w = takeWhile (\<lambda>c. \<not> is_space c) ?s'"
      have "w \<noteq> []" using False hd unfolding w by (cases ?s') auto
      moreover have "\<forall>c\<in>set w. \<not> is_space c"
        unfolding w using set_takeWhileD by fastforce
      ultimately show ?thesis by simp
    next
      assume "w \<in> set (split_ws (dropWhile (\<lambda>c. \<not> is_space c) ?s'))"
      with "1.IH" [OF refl False] show ?thesis by blast
    qed
  qed
qed

lemma filter_dropWhile_space:
  "filter (\<lambda>c. \<not> is_space c) (dropWhile is_space s) = filter (\<lambda>c. \<not> is_space c) s"
  by (induction s) auto

lemma filter_takeWhile_nonspace:
  "filter (\<lambda>c. \<not> is_space c) (takeWhile (\<lambda>c. \<not> is_space c) s)
     = takeWhile (\<lambda>c. \<not> is_space c) s"
  by (induction s) auto

lemma concat_split_ws: "concat (split_ws s) = filter (\<lambda>c. \<not> is_space c) s"
proof (induction s rule: split_ws.induct)
  case (1 s)
  let ?s' = "dropWhile is_space s"
  let ?P = "\<lambda>c. \<not> is_space c"
  show ?case
  proof (cases "?s' = []")
    case True
    then have "filter ?P s = []"
      using filter_dropWhile_space [of s] by (simp del: dropWhile_eq_Nil_conv)
    then show ?thesis unfolding split_ws_Nil [OF True] by simp
  next
    case False
    have "concat (split_ws s) = takeWhile ?P ?s' @ concat (split_ws (dropWhile ?P ?s'))"
      unfolding split_ws_Cons [OF False] by simp
    also have "\<dots> = filter ?P (takeWhile ?P ?s') @ filter ?P (dropWhile ?P ?s')"
      using "1.IH" [OF refl False] by (simp add: filter_takeWhile_nonspace)
    also have "\<dots> = filter ?P (takeWhile ?P ?s' @ dropWhile ?P ?s')"
      by (simp only: filter_append)
    also have "\<dots> = filter ?P ?s'" by (simp only: takeWhile_dropWhile_id)
    also have "\<dots> = filter ?P s" by (rule filter_dropWhile_space)
    finally show ?thesis .
  qed
qed

lemma rsplit1_absent: "sep \<notin> set s \<Longrightarrow> rsplit1 sep s ! 0 = s"
  by (simp add: rsplit1_def)

lemma rsplit1_present:
  assumes "sep \<in> set s"
  shows "\<exists>kept dropped. s = kept @ [sep] @ dropped \<and> sep \<notin> set dropped
           \<and> rsplit1 sep s ! 0 = kept"
proof -
  let ?t = "takeWhile (\<lambda>c. c \<noteq> sep) (rev s)"
  let ?d = "dropWhile (\<lambda>c. c \<noteq> sep) (rev s)"
  have "sep \<in> set (rev s)" using assms by simp
  then have dne: "?d \<noteq> []" by (simp add: dropWhile_eq_Nil_conv)
  then have "hd ?d = sep" using hd_dropWhile [of "\<lambda>c. c \<noteq> sep" "rev s"] by simp
  then have d: "?d = sep # drop 1 ?d" using dne by (cases ?d) auto
  have "rev s = ?t @ ?d" by simp
  then have "rev s = ?t @ sep # drop 1 ?d" using d by simp
  then have "rev (rev s) = rev (?t @ sep # drop 1 ?d)" by simp
  then have s: "s = rev (drop 1 ?d) @ [sep] @ rev ?t" by simp
  have "sep \<notin> set (rev ?t)" using set_takeWhileD [of sep "\<lambda>c. c \<noteq> sep" "rev s"] by auto
  moreover have "rsplit1 sep s ! 0 = rev (drop 1 ?d)" using assms by (simp add: rsplit1_def)
  ultimately show ?thesis using s by blast
qed

lemma append_sep_cases:
  assumes "xs @ sep # ys = a @ sep # b" and "sep \<notin> set xs"
  shows "(a = xs \<and> b = ys) \<or> (\<exists>a'. a = xs @ sep # a' \<and> ys = a' @ sep # b)"
proof -
  from assms(1) obtain us where
    "(xs = a @ us \<and> us @ sep # ys = sep # b) \<or> (xs @ us = a \<and> sep # ys = us @ sep # b)"
    by (auto simp add: append_eq_append_conv2)
  then show ?thesis
  proof
    assume h: "xs = a @ us \<and> us @ sep # ys = sep # b"
    show ?thesis
    proof (cases us)
      case Nil
      with h show ?thesis by simp
    next
      case (Cons u us')
      with h have "u = sep" by simp
      with h Cons assms(2) show ?thesis by simp
    qed
  next
    assume h: "xs @ us = a \<and> sep # ys = us @ sep # b"
    show ?thesis
    proof (cases us)
      case Nil
      with h show ?thesis by simp
    next
      case (Cons u us')
      with h show ?thesis by auto
    qed
  qed
qed

lemma join_str_Cons: "ws \<noteq> [] \<Longrightarrow> join_str sep (w # ws) = w @ sep @ join_str sep ws"
  by (cases ws) simp_all

lemma join_str_cut_at_sep:
  assumes "\<forall>w\<in>set ws. sep \<notin> set w" and "join_str [sep] ws = a @ sep # b"
  shows "\<exists>k. 0 < k \<and> k < length ws \<and> a = join_str [sep] (take k ws)
           \<and> b = join_str [sep] (drop k ws)"
  using assms
proof (induction ws arbitrary: a)
  case Nil
  then show ?case by simp
next
  case (Cons w ws)
  show ?case
  proof (cases ws)
    case Nil
    with Cons.prems show ?thesis by auto
  next
    case (Cons w' ws')
    then have ne: "ws \<noteq> []" by simp
    have eq: "w @ sep # join_str [sep] ws = a @ sep # b"
      using Cons.prems(2) ne by (simp add: join_str_Cons)
    have "sep \<notin> set w" using Cons.prems(1) by simp
    from append_sep_cases [OF eq this]
    show ?thesis
    proof
      assume "a = w \<and> b = join_str [sep] ws"
      then have "0 < (1::nat) \<and> 1 < length (w # ws) \<and> a = join_str [sep] (take 1 (w # ws))
           \<and> b = join_str [sep] (drop 1 (w # ws))"
        using ne by simp
      then show ?thesis by blast
    next
      assume "\<exists>a'. a = w @ sep # a' \<and> join_str [sep] ws = a' @ sep # b"
      then obtain a' where a': "a = w @ sep # a'" "join_str [sep] ws = a' @ sep # b" by blast
      have "\<forall>w\<in>set ws. sep \<notin> set w" using Cons.prems(1) by simp
      from Cons.IH [OF this a'(2)] obtain k where
        k: "0 < k" "k < length ws" "a' = join_str [sep] (take k ws)"
          "b = join_str [sep] (drop k ws)" by blast
      have "take k ws \<noteq> []" using k(1,2) by auto
      then have "a = join_str [sep] (take (Suc k) (w # ws))"
        using a'(1) k(3) by (simp add: join_str_Cons)
      moreover have "b = join_str [sep] (drop (Suc k) (w # ws))" using k(4) by simp
      ultimately have "0 < Suc k \<and> Suc k < length (w # ws)
          \<and> a = join_str [sep] (take (Suc k) (w # ws))
          \<and> b = join_str [sep] (drop (Suc k) (w # ws))"
        using k(2) by simp
      then show ?thesis by blast
    qed
  qed
qed

lemma is_space_32: "is_space 32"
  by (simp add: is_space_def)

lemma ascii_space: "ascii '' '' = [32]"
  by (simp add: ascii_def)

lemma summarize_short_cut_at_space:
  assumes "32 \<in> set (slice_to max_length (join_str [32] (split_ws text)))"
  shows "\<exists>k kept dropped.
           slice_to max_length (join_str [32] (split_ws text)) = kept @ [32] @ dropped
         \<and> 32 \<notin> set dropped
         \<and> kept = join_str [32] (take k (split_ws text))
         \<and> rsplit1 32 (slice_to max_length (join_str [32] (split_ws text))) ! 0 = kept"
proof -
  let ?ws = "split_ws text"
  let ?c = "join_str [32] ?ws"
  let ?cut = "slice_to max_length ?c"
  from rsplit1_present [OF assms] obtain kept dropped where
    kd: "?cut = kept @ [32] @ dropped" "32 \<notin> set dropped" "rsplit1 32 ?cut ! 0 = kept"
    by blast
  obtain n where n: "?cut = take n ?c" unfolding slice_to_def by blast
  have t: "take n ?c = kept @ [32] @ dropped" using kd(1) n by simp
  have "?c = take n ?c @ drop n ?c" by simp
  then have "?c = (kept @ [32] @ dropped) @ drop n ?c" unfolding t .
  then have "?c = kept @ 32 # (dropped @ drop n ?c)" by simp
  moreover have "\<forall>w\<in>set ?ws. 32 \<notin> set w"
    using split_ws_words is_space_32 by blast
  ultimately obtain k where "kept = join_str [32] (take k ?ws)"
    using join_str_cut_at_sep [of ?ws 32 kept "dropped @ drop n ?c"] by blast
  with kd show ?thesis by blast
qed

text \<open>
  Claim C8, as the code has it. The empty text gives the empty text. Otherwise the text is
  collapsed: its words (the maximal runs without white space) joined by single spaces. A
  collapsed text no longer than \<open>max_length\<close> is returned as it is. A longer one is cut
  by the slice \<open>[:max_length]\<close>, which for a \<open>max_length\<close> that is not negative keeps the
  first \<open>max_length\<close> characters. When the cut holds a space, the result is the cut before
  its last space, which is the first \<open>k\<close> words of the text joined by single spaces (the
  last word of the cut is dropped, whether the cut went through it or not), and the
  ellipsis. When the cut holds no space, the result is the whole cut and the ellipsis.
\<close>

theorem summarize_short_behaviour:
  "summarize_short [] max_length = []
   \<and> (let words = split_ws text;
           collapsed = join_str (ascii '' '') words;
           cut = slice_to max_length collapsed
       in (\<forall>w\<in>set words. w \<noteq> [] \<and> (\<forall>c\<in>set w. \<not> is_space c))
        \<and> concat words = filter (\<lambda>c. \<not> is_space c) text
        \<and> (0 \<le> max_length \<longrightarrow> cut = take (nat max_length) collapsed)
        \<and> (text \<noteq> [] \<and> int (length collapsed) \<le> max_length \<longrightarrow>
             summarize_short text max_length = collapsed)
        \<and> (text \<noteq> [] \<and> max_length < int (length collapsed) \<and> 32 \<notin> set cut \<longrightarrow>
             summarize_short text max_length = cut @ ascii ''...'')
        \<and> (text \<noteq> [] \<and> max_length < int (length collapsed) \<and> 32 \<in> set cut \<longrightarrow>
             (\<exists>k kept dropped.
                 cut = kept @ ascii '' '' @ dropped
               \<and> 32 \<notin> set dropped
               \<and> kept = join_str (ascii '' '') (take k words)
               \<and> summarize_short text max_length = kept @ ascii ''...'')))"
proof -
  let ?ws = "split_ws text"
  let ?c = "join_str [32] ?ws"
  let ?cut = "slice_to max_length ?c"
  have a: "summarize_short [] max_length = []" by (simp add: summarize_short_def)
  have b: "\<forall>w\<in>set ?ws. w \<noteq> [] \<and> (\<forall>c\<in>set w. \<not> is_space c)"
    using split_ws_words by blast
  have c: "concat ?ws = filter (\<lambda>c. \<not> is_space c) text" by (rule concat_split_ws)
  have d: "0 \<le> max_length \<longrightarrow> ?cut = take (nat max_length) ?c"
    by (simp add: slice_to_def)
  have e: "text \<noteq> [] \<and> int (length ?c) \<le> max_length \<longrightarrow>
      summarize_short text max_length = ?c"
    by (simp add: summarize_short_def Let_def ascii_space)
  have f: "text \<noteq> [] \<and> max_length < int (length ?c) \<and> 32 \<notin> set ?cut \<longrightarrow>
      summarize_short text max_length = ?cut @ ascii ''...''"
    by (simp add: summarize_short_def Let_def ascii_space rsplit1_absent)
  have g: "text \<noteq> [] \<and> max_length < int (length ?c) \<and> 32 \<in> set ?cut \<longrightarrow>
      (\<exists>k kept dropped. ?cut = kept @ [32] @ dropped \<and> 32 \<notin> set dropped
         \<and> kept = join_str [32] (take k ?ws)
         \<and> summarize_short text max_length = kept @ ascii ''...'')"
  proof
    assume h: "text \<noteq> [] \<and> max_length < int (length ?c) \<and> 32 \<in> set ?cut"
    then have s: "summarize_short text max_length = rsplit1 32 ?cut ! 0 @ ascii ''...''"
      by (simp add: summarize_short_def Let_def ascii_space)
    from h have "32 \<in> set ?cut" by simp
    from summarize_short_cut_at_space [OF this] s
    show "\<exists>k kept dropped. ?cut = kept @ [32] @ dropped \<and> 32 \<notin> set dropped
         \<and> kept = join_str [32] (take k ?ws)
         \<and> summarize_short text max_length = kept @ ascii ''...''"
      by metis
  qed
  show ?thesis
    unfolding Let_def ascii_space using a b c d e f g by blast
qed

theorem summarize_short_behaviour_witness:
  "summarize_short (ascii ''ab  cd'') 10 = ascii ''ab cd''
   \<and> summarize_short (ascii ''abcdefgh'') 3 = ascii ''abc'' @ ascii ''...''
   \<and> (\<exists>k kept dropped.
         take 3 (ascii ''a b c d e'') = kept @ ascii '' '' @ dropped
       \<and> 32 \<notin> set dropped
       \<and> kept = join_str (ascii '' '') (take k (split_ws (ascii ''a b c d e'')))
       \<and> summarize_short (ascii ''a b c d e'') 3 = kept @ ascii ''...'')"
proof -
  let ?t1 = "ascii ''ab  cd''"
  let ?t2 = "ascii ''abcdefgh''"
  let ?t3 = "ascii ''a b c d e''"
  have c1: "join_str (ascii '' '') (split_ws ?t1) = ascii ''ab cd''"
    by (simp add: split_ws.simps ascii_def is_space_def)
  have c2: "join_str (ascii '' '') (split_ws ?t2) = ?t2"
    by (simp add: split_ws.simps ascii_def is_space_def)
  have c3: "join_str (ascii '' '') (split_ws ?t3) = ?t3"
    by (simp add: split_ws.simps ascii_def is_space_def)
  have "?t1 \<noteq> [] \<and> int (length (join_str (ascii '' '') (split_ws ?t1))) \<le> 10 \<longrightarrow>
      summarize_short ?t1 10 = join_str (ascii '' '') (split_ws ?t1)"
    using summarize_short_behaviour [of 10 ?t1] unfolding Let_def by blast
  then have r1: "summarize_short ?t1 10 = ascii ''ab cd''"
    unfolding c1 by (simp add: ascii_def)
  have "?t2 \<noteq> [] \<and> 3 < int (length (join_str (ascii '' '') (split_ws ?t2)))
      \<and> 32 \<notin> set (slice_to 3 (join_str (ascii '' '') (split_ws ?t2))) \<longrightarrow>
      summarize_short ?t2 3 = slice_to 3 (join_str (ascii '' '') (split_ws ?t2)) @ ascii ''...''"
    using summarize_short_behaviour [of 3 ?t2] unfolding Let_def by blast
  then have r2: "summarize_short ?t2 3 = ascii ''abc'' @ ascii ''...''"
    unfolding c2 by (simp add: ascii_def slice_to_def)
  have imp: "?t3 \<noteq> [] \<and> 3 < int (length (join_str (ascii '' '') (split_ws ?t3)))
      \<and> 32 \<in> set (slice_to 3 (join_str (ascii '' '') (split_ws ?t3))) \<longrightarrow>
      (\<exists>k kept dropped.
          slice_to 3 (join_str (ascii '' '') (split_ws ?t3)) = kept @ ascii '' '' @ dropped
        \<and> 32 \<notin> set dropped
        \<and> kept = join_str (ascii '' '') (take k (split_ws ?t3))
        \<and> summarize_short ?t3 3 = kept @ ascii ''...'')"
    using summarize_short_behaviour [of 3 ?t3] unfolding Let_def by blast
  have pre: "?t3 \<noteq> [] \<and> 3 < int (length ?t3) \<and> 32 \<in> set (slice_to 3 ?t3)"
    by (simp add: ascii_def slice_to_def)
  have sl: "slice_to 3 ?t3 = take 3 ?t3" by (simp add: slice_to_def)
  have "\<exists>k kept dropped.
         slice_to 3 ?t3 = kept @ ascii '' '' @ dropped
       \<and> 32 \<notin> set dropped
       \<and> kept = join_str (ascii '' '') (take k (split_ws ?t3))
       \<and> summarize_short ?t3 3 = kept @ ascii ''...''"
    using imp pre unfolding c3 by blast
  then have r3: "\<exists>k kept dropped.
         take 3 ?t3 = kept @ ascii '' '' @ dropped
       \<and> 32 \<notin> set dropped
       \<and> kept = join_str (ascii '' '') (take k (split_ws ?t3))
       \<and> summarize_short ?t3 3 = kept @ ascii ''...''"
    unfolding sl .
  show ?thesis using r1 r2 r3 by blast
qed

lemmas summarize_short_eval =
  summarize_short_def split_ws.simps join_str.simps slice_to_def rsplit1_def ascii_def
  is_space_def Let_def

text \<open>
  A first word longer than \<open>max_length\<close> is cut in the middle: the cut holds no space
  to go back to. And a cut that ends exactly where a word ends loses that word, although
  it is complete.
\<close>

theorem summarize_short_behaviour_counterexample:
  "summarize_short (ascii ''abcdefgh'') 3 = ascii ''abc...''
   \<and> split_ws (ascii ''abcdefgh'') = [ascii ''abcdefgh'']
   \<and> ascii ''abc'' \<noteq> ascii ''abcdefgh''
   \<and> summarize_short (ascii ''ab cd ef'') 5 = ascii ''ab...''
   \<and> take 5 (ascii ''ab cd ef'') = join_str (ascii '' '') (take 2 (split_ws (ascii ''ab cd ef'')))"
  by (simp add: summarize_short_eval)

section \<open>Properties of the transcript store\<close>

subsection \<open>Saving, then loading\<close>





subsection \<open>Listing\<close>

text \<open>
  Claim C9, as the code has it. For a directory that does not exist the result is the
  empty list, returned and not raised. For a directory, the result holds exactly one entry
  for each of its entries whose name ends with \<open>.json\<close>, built from that entry's name,
  modification time and size, and the entries are in descending order of their timestamp
  strings.
\<close>

theorem list_conversations_entries:
  "(fs output_dir = Missing \<longrightarrow> list_conversations isoformat strftime fs output_dir = Inr [])
   \<and> (fs output_dir = Directory entries \<longrightarrow>
        (\<exists>conversations.
            list_conversations isoformat strftime fs output_dir = Inr conversations
          \<and> mset conversations =
              mset (map (conversation_of isoformat strftime output_dir)
                     (filter (\<lambda>e. ends_with (ascii ''.json'') (name e)) entries))
          \<and> sorted (rev (map timestamp conversations))))"
proof (intro conjI impI)
  assume "fs output_dir = Missing"
  then show "list_conversations isoformat strftime fs output_dir = Inr []"
    by (simp add: list_conversations_def)
next
  assume d: "fs output_dir = Directory entries"
  let ?built = "map (conversation_of isoformat strftime output_dir)
                  (filter (\<lambda>e. ends_with (ascii ''.json'') (name e)) entries)"
  let ?sorted = "rev (sort_key timestamp (rev ?built))"
  have run: "list_conversations isoformat strftime fs output_dir = Inr ?sorted"
    using d by (simp add: list_conversations_def Let_def)
  have same: "mset ?sorted = mset ?built" by simp
  have "rev (map timestamp ?sorted) = map timestamp (sort_key timestamp (rev ?built))"
    by (simp add: rev_map)
  then have desc: "sorted (rev (map timestamp ?sorted))"
    by (simp only: sorted_sort_key)
  show "\<exists>conversations.
            list_conversations isoformat strftime fs output_dir = Inr conversations
          \<and> mset conversations = mset ?built
          \<and> sorted (rev (map timestamp conversations))"
    using run same desc by blast
qed

theorem list_conversations_entries_witness:
  "list_conversations (\<lambda>t::nat. [48 + t]) (\<lambda>t. [48 + t])
     (\<lambda>p. if p = ascii ''logs''
          then Directory
            [\<lparr>name = ascii ''finance_plan_20251130_103000.json'', st_mtime = 1, st_size = 2048\<rparr>,
             \<lparr>name = ascii ''readme.txt'', st_mtime = 5, st_size = 10\<rparr>,
             \<lparr>name = ascii ''finance_plan_20251130_103002.json'', st_mtime = 3, st_size = 1024\<rparr>]
          else Missing)
     (ascii ''elsewhere'') = Inr []
   \<and> (\<exists>conversations.
        list_conversations (\<lambda>t::nat. [48 + t]) (\<lambda>t. [48 + t])
         (\<lambda>p. if p = ascii ''logs''
          then Directory
            [\<lparr>name = ascii ''finance_plan_20251130_103000.json'', st_mtime = 1, st_size = 2048\<rparr>,
             \<lparr>name = ascii ''readme.txt'', st_mtime = 5, st_size = 10\<rparr>,
             \<lparr>name = ascii ''finance_plan_20251130_103002.json'', st_mtime = 3, st_size = 1024\<rparr>]
          else Missing)
         (ascii ''logs'') = Inr conversations
      \<and> map filename conversations =
          [ascii ''finance_plan_20251130_103002.json'', ascii ''finance_plan_20251130_103000.json'']
      \<and> sorted (rev (map timestamp conversations)))"
proof -
  let ?es = "[\<lparr>name = ascii ''finance_plan_20251130_103000.json'', st_mtime = 1::nat, st_size = 2048\<rparr>,
             \<lparr>name = ascii ''readme.txt'', st_mtime = 5, st_size = 10\<rparr>,
             \<lparr>name = ascii ''finance_plan_20251130_103002.json'', st_mtime = 3, st_size = 1024\<rparr>]"
  let ?fs = "\<lambda>p. if p = ascii ''logs'' then Directory ?es else Missing"
  let ?f = "\<lambda>t::nat. [48 + t]"
  have m: "?fs (ascii ''elsewhere'') = Missing" by (simp add: ascii_def)
  have d: "?fs (ascii ''logs'') = Directory ?es" by simp
  have "list_conversations ?f ?f ?fs (ascii ''elsewhere'') = Inr []"
    using list_conversations_entries [of ?fs "ascii ''elsewhere''" ?f ?f ?es] m by blast
  moreover have "\<exists>conversations.
        list_conversations ?f ?f ?fs (ascii ''logs'') = Inr conversations
      \<and> sorted (rev (map timestamp conversations))"
    using list_conversations_entries [of ?fs "ascii ''logs''" ?f ?f ?es] d by blast
  moreover have "list_conversations ?f ?f ?fs (ascii ''logs'') =
      Inr (map (conversation_of ?f ?f (ascii ''logs'')) [?es ! 2, ?es ! 0])"
    by (simp add: list_conversations_def conversation_of_def ends_with_def ascii_def Let_def)
  ultimately show ?thesis by (auto simp add: conversation_of_def)
qed

text \<open>
  A file whose name ends with \<open>.json\<close> is listed whether or not the store wrote it.
\<close>

theorem list_conversations_entries_counterexample:
  "list_conversations (\<lambda>t::nat. [48 + t]) (\<lambda>t. [48 + t])
     (\<lambda>p. if p = ascii ''logs''
          then Directory [\<lparr>name = ascii ''notes.json'', st_mtime = 0, st_size = 2048\<rparr>]
          else Missing)
     (ascii ''logs'') =
     Inr [\<lparr>filename = ascii ''notes.json'', filepath = ascii ''logs/notes.json'',
           timestamp = ascii ''0'', timestamp_readable = ascii ''0'',
           size_bytes = 2048, size_kb = 2\<rparr>]
   \<and> \<not> is_transcript_name (ascii ''notes.json'')"
  by (simp add: list_conversations_def conversation_of_def ends_with_def path_join_def
      is_transcript_name_def round2_def round_half_even_def ascii_def Let_def)

section \<open>Properties of the pipeline\<close>

subsection \<open>What one call and one run compute\<close>

lemma respond_reply:
  "invoke env w (system_message self context) (human_message prompt) = (g, w') \<Longrightarrow>
     \<exists>self'. respond env self w prompt context = (reply_text g, self', w')"
  by (auto simp add: respond_def reply_text_def Let_def
      split: invocation.splits llm_response.splits)

lemma respond_raised:
  "invoke env w (system_message self context) (human_message prompt) = (Raised e tb, w') \<Longrightarrow>
     respond env self w prompt context =
       (error_msg e,
        self\<lparr>conversation_history := conversation_history self
           @ [Failed (role self) e tb (now_isoformat env w')]\<rparr>,
        w')"
  by (simp add: respond_def)

lemma run_multi_agent_flow_stages:
  assumes "monthly_income ud \<noteq> 0"
    and "invoke env w (system_message advisor_agent advisor_context)
           (human_message (advisor_prompt env ud sc)) = (g1, w1)"
    and "invoke env w1 (system_message risk_analyst_agent risk_context)
           (human_message (risk_prompt env ud sc (reply_text g1)
              (monthly_sip sc / monthly_income ud * 100))) = (g2, w2)"
    and "invoke env w2 (system_message planner_agent planner_context)
           (human_message (planner_prompt env ud sc (reply_text g1) (reply_text g2))) = (g3, w3)"
  shows "run_multi_agent_flow env w ud sc =
           Inr ((reply_text g1, reply_text g2, reply_text g3), w3)"
proof -
  from respond_reply [OF assms(2)] obtain a1 where
    r1: "advisor_analyze env advisor_agent w ud sc = (reply_text g1, a1, w1)"
    unfolding advisor_analyze_def by blast
  from respond_reply [OF assms(3)] obtain a2 where
    r2: "risk_analyze env risk_analyst_agent w1 ud sc (reply_text g1)
           = Inr (reply_text g2, a2, w2)"
    unfolding risk_analyze_def Let_def using assms(1) by auto
  from respond_reply [OF assms(4)] obtain a3 where
    r3: "create_plan env planner_agent w2 ud sc (reply_text g1) (reply_text g2)
           = (reply_text g3, a3, w3)"
    unfolding create_plan_def by blast
  show ?thesis
    unfolding run_multi_agent_flow_def Let_def by (simp add: r1 r2 r3)
qed

lemma run_multi_agent_flow_zero_income:
  assumes "monthly_income ud = 0"
  shows "run_multi_agent_flow env w ud sc = Inl ZeroDivisionError"
  unfolding run_multi_agent_flow_def Let_def
  by (simp add: risk_analyze_def assms split: prod.splits)

lemma risk_prompt_contains:
  "\<exists>pre post. risk_prompt env ud sc a ratio = pre @ a @ post"
  unfolding risk_prompt_def by blast

lemma planner_prompt_contains:
  "\<exists>pre mid post. planner_prompt env ud sc a r = pre @ a @ mid @ r @ post"
  unfolding planner_prompt_def by blast

lemma human_message_contains:
  assumes "prompt = pre @ a @ post"
  shows "\<exists>pre' post'. human_message prompt = pre' @ a @ post'"
proof -
  obtain h1 h2 where "human_message prompt = h1 @ prompt @ h2"
    unfolding human_message_def by blast
  then have "human_message prompt = (h1 @ pre) @ a @ (post @ h2)"
    using assms by simp
  then show ?thesis by blast
qed

lemma error_msg_nonempty: "error_msg e \<noteq> []"
  by (simp add: error_msg_def)

lemma error_msg_embeds: "\<exists>pre. pre \<noteq> [] \<and> error_msg e = pre @ e"
  unfolding error_msg_def by blast

lemma strip_nonempty:
  assumes "c \<in> set s" and "\<not> is_space c"
  shows "strip s \<noteq> []"
proof -
  have "\<exists>x\<in>set s. \<not> is_space x" using assms by blast
  then have "dropWhile is_space s \<noteq> []" by (simp add: dropWhile_eq_Nil_conv)
  then obtain x xs where d: "dropWhile is_space s = x # xs" by (cases "dropWhile is_space s") auto
  then have "\<not> is_space x" using hd_dropWhile [of is_space s] by auto
  then have "\<exists>y\<in>set (rev (x # xs)). \<not> is_space y" by auto
  then have "dropWhile is_space (rev (x # xs)) \<noteq> []" by (simp only: dropWhile_eq_Nil_conv) blast
  then show ?thesis unfolding strip_def d by simp
qed

lemma human_message_contains_two:
  assumes "prompt = pre @ a @ mid @ r @ post"
  shows "\<exists>pre' mid' post'. human_message prompt = pre' @ a @ mid' @ r @ post'"
proof -
  obtain h1 h2 where "human_message prompt = h1 @ prompt @ h2"
    unfolding human_message_def by blast
  then have "human_message prompt = (h1 @ pre) @ a @ mid @ r @ (post @ h2)"
    using assms by simp
  then show ?thesis by blast
qed

lemma reply_text_nonempty:
  assumes "returned_visible_text g"
  shows "reply_text g \<noteq> []"
proof (cases g)
  case (Returned resp)
  then show ?thesis
  proof (cases resp)
    case (WithContent c)
    with Returned assms have "\<not> list_all is_space c" by (simp add: returned_visible_text_def)
    then obtain x where "x \<in> set c" "\<not> is_space x" by (auto simp add: list_all_iff)
    then have "strip c \<noteq> []" by (rule strip_nonempty)
    with Returned WithContent show ?thesis by (simp add: reply_text_def)
  next
    case (WithoutContent c)
    with Returned assms have "\<not> list_all is_space c" by (simp add: returned_visible_text_def)
    then obtain x where "x \<in> set c" "\<not> is_space x" by (auto simp add: list_all_iff)
    then have "strip c \<noteq> []" by (rule strip_nonempty)
    with Returned WithoutContent show ?thesis by (simp add: reply_text_def)
  qed
next
  case (Raised e tb)
  with assms show ?thesis by (simp add: returned_visible_text_def)
qed

lemma scripted_invoke:
  "invoke (scripted_environment script) w system human = (script w, w + 1)"
  by (simp add: scripted_environment_def)

lemma example_income: "monthly_income example_user_data = 50000"
  by (simp add: example_user_data_def)

subsection \<open>Order of the stages and the texts they are given\<close>

text \<open>
  Claim C4, as the code has it. For every \<open>user_data\<close> whose monthly income is not zero,
  every \<open>sip_calc\<close> and every generator, \<open>run_multi_agent_flow\<close> invokes the generator
  three times, each time in the world the call before left: first for the advisor, then
  for the risk analyst, then for the planner. It returns the three texts of these calls,
  whether they returned or raised. The prompt of the risk stage, and the human message
  built from it, contain the advisor's returned text; the prompt of the planner stage, and
  its human message, contain the advisor's returned text and, after it, the risk analyst's.
\<close>

theorem pipeline_stages_in_order:
  assumes "monthly_income ud \<noteq> 0"
  shows "\<exists>g1 w1 g2 w2 g3 w3.
      invoke env w (system_message advisor_agent advisor_context)
        (human_message (advisor_prompt env ud sc)) = (g1, w1)
    \<and> invoke env w1 (system_message risk_analyst_agent risk_context)
        (human_message (risk_prompt env ud sc (reply_text g1)
           (monthly_sip sc / monthly_income ud * 100))) = (g2, w2)
    \<and> invoke env w2 (system_message planner_agent planner_context)
        (human_message (planner_prompt env ud sc (reply_text g1) (reply_text g2))) = (g3, w3)
    \<and> run_multi_agent_flow env w ud sc =
        Inr ((reply_text g1, reply_text g2, reply_text g3), w3)
    \<and> (\<exists>pre post.
          risk_prompt env ud sc (reply_text g1) (monthly_sip sc / monthly_income ud * 100)
            = pre @ reply_text g1 @ post)
    \<and> (\<exists>pre post.
          human_message (risk_prompt env ud sc (reply_text g1)
             (monthly_sip sc / monthly_income ud * 100))
            = pre @ reply_text g1 @ post)
    \<and> (\<exists>pre mid post.
          planner_prompt env ud sc (reply_text g1) (reply_text g2)
            = pre @ reply_text g1 @ mid @ reply_text g2 @ post)
    \<and> (\<exists>pre mid post.
          human_message (planner_prompt env ud sc (reply_text g1) (reply_text g2))
            = pre @ reply_text g1 @ mid @ reply_text g2 @ post)"
proof -
  let ?ratio = "monthly_sip sc / monthly_income ud * 100"
  obtain g1 w1 where i1:
    "invoke env w (system_message advisor_agent advisor_context)
        (human_message (advisor_prompt env ud sc)) = (g1, w1)"
    by (meson surj_pair)
  obtain g2 w2 where i2:
    "invoke env w1 (system_message risk_analyst_agent risk_context)
        (human_message (risk_prompt env ud sc (reply_text g1) ?ratio)) = (g2, w2)"
    by (meson surj_pair)
  obtain g3 w3 where i3:
    "invoke env w2 (system_message planner_agent planner_context)
        (human_message (planner_prompt env ud sc (reply_text g1) (reply_text g2))) = (g3, w3)"
    by (meson surj_pair)
  note run = run_multi_agent_flow_stages [OF assms i1 i2 i3]
  obtain pre post where rp:
    "risk_prompt env ud sc (reply_text g1) ?ratio = pre @ reply_text g1 @ post"
    using risk_prompt_contains by blast
  obtain pre' mid' post' where pp:
    "planner_prompt env ud sc (reply_text g1) (reply_text g2)
       = pre' @ reply_text g1 @ mid' @ reply_text g2 @ post'"
    using planner_prompt_contains by blast
  note hr = human_message_contains [OF rp]
  note hp = human_message_contains_two [OF pp]
  show ?thesis
    using i1 i2 i3 run rp pp hr hp by blast
qed

theorem pipeline_stages_in_order_witness:
  "\<exists>w3. run_multi_agent_flow
        (scripted_environment (\<lambda>k. Returned (WithContent (ascii '' ok ''))))
        0 example_user_data example_sip_calc
      = Inr ((ascii ''ok'', ascii ''ok'', ascii ''ok''), w3)"
proof -
  let ?env = "scripted_environment (\<lambda>k. Returned (WithContent (ascii '' ok '')))"
  have ok: "reply_text (Returned (WithContent (ascii '' ok ''))) = ascii ''ok''"
    by (simp add: reply_text_def strip_def ascii_def is_space_def)
  have "monthly_income example_user_data \<noteq> 0" by (simp add: example_income)
  from pipeline_stages_in_order [OF this, of ?env 0 example_sip_calc]
  obtain g1 w1 g2 w2 g3 w3 where
    "invoke ?env 0 (system_message advisor_agent advisor_context)
        (human_message (advisor_prompt ?env example_user_data example_sip_calc)) = (g1, w1)"
    "invoke ?env w1 (system_message risk_analyst_agent risk_context)
        (human_message (risk_prompt ?env example_user_data example_sip_calc (reply_text g1)
           (monthly_sip example_sip_calc / monthly_income example_user_data * 100))) = (g2, w2)"
    "invoke ?env w2 (system_message planner_agent planner_context)
        (human_message (planner_prompt ?env example_user_data example_sip_calc
           (reply_text g1) (reply_text g2))) = (g3, w3)"
    "run_multi_agent_flow ?env 0 example_user_data example_sip_calc =
        Inr ((reply_text g1, reply_text g2, reply_text g3), w3)"
    by blast
  then show ?thesis by (auto simp add: scripted_invoke ok)
qed

text \<open>
  With a monthly income of zero the division in the risk stage raises after the advisor
  stage: the risk analyst and the planner are never asked.
\<close>

theorem pipeline_stages_in_order_counterexample:
  "run_multi_agent_flow
      (scripted_environment (\<lambda>k. Returned (WithContent (ascii '' ok ''))))
      0 (example_user_data\<lparr>monthly_income := 0\<rparr>) example_sip_calc
    = Inl ZeroDivisionError"
  by (rule run_multi_agent_flow_zero_income) simp

subsection \<open>A failing generator\<close>

text \<open>
  Claim C5, as the code has it. When the invocation raises, \<open>respond\<close> returns: it
  appends to the history an entry with the role, the error text, the traceback and the
  time, and no response, and its text is a non-empty prefix followed by the error text.
  When the income is not zero and the invocation of the second stage raises,
  \<open>run_multi_agent_flow\<close> returns three texts, the second being that error text, which is
  not empty and which the planner's prompt is built from and contains. The first and the
  third text are not empty whenever the generator returned, for them, a text that holds a
  character that is not white space.
\<close>

theorem generator_failure_is_fail_soft:
  "(invoke env w (system_message self context) (human_message prompt) = (Raised e tb, w')
      \<longrightarrow> respond env self w prompt context =
            (error_msg e,
             self\<lparr>conversation_history := conversation_history self
                @ [Failed (role self) e tb (now_isoformat env w')]\<rparr>,
             w')
        \<and> error_msg e \<noteq> []
        \<and> (\<exists>pre. pre \<noteq> [] \<and> error_msg e = pre @ e))
   \<and> (monthly_income ud \<noteq> 0
      \<and> invoke env w0 (system_message advisor_agent advisor_context)
          (human_message (advisor_prompt env ud sc)) = (g1, w1)
      \<and> invoke env w1 (system_message risk_analyst_agent risk_context)
          (human_message (risk_prompt env ud sc (reply_text g1)
             (monthly_sip sc / monthly_income ud * 100))) = (Raised e2 tb2, w2)
      \<and> invoke env w2 (system_message planner_agent planner_context)
          (human_message (planner_prompt env ud sc (reply_text g1) (error_msg e2))) = (g3, w3)
      \<longrightarrow> run_multi_agent_flow env w0 ud sc =
            Inr ((reply_text g1, error_msg e2, reply_text g3), w3)
        \<and> error_msg e2 \<noteq> []
        \<and> create_plan env planner_agent w2 ud sc (reply_text g1) (error_msg e2) =
            respond env planner_agent w2
              (planner_prompt env ud sc (reply_text g1) (error_msg e2)) planner_context
        \<and> (\<exists>pre mid post.
              planner_prompt env ud sc (reply_text g1) (error_msg e2)
                = pre @ reply_text g1 @ mid @ error_msg e2 @ post)
        \<and> (returned_visible_text g1 \<longrightarrow> reply_text g1 \<noteq> [])
        \<and> (returned_visible_text g3 \<longrightarrow> reply_text g3 \<noteq> []))"
proof (intro conjI impI)
  assume "invoke env w (system_message self context) (human_message prompt) = (Raised e tb, w')"
  then show "respond env self w prompt context =
            (error_msg e,
             self\<lparr>conversation_history := conversation_history self
                @ [Failed (role self) e tb (now_isoformat env w')]\<rparr>,
             w')"
    by (rule respond_raised)
next
  show "error_msg e \<noteq> []" by (rule error_msg_nonempty)
next
  show "\<exists>pre. pre \<noteq> [] \<and> error_msg e = pre @ e" by (rule error_msg_embeds)
next
  assume h: "monthly_income ud \<noteq> 0
      \<and> invoke env w0 (system_message advisor_agent advisor_context)
          (human_message (advisor_prompt env ud sc)) = (g1, w1)
      \<and> invoke env w1 (system_message risk_analyst_agent risk_context)
          (human_message (risk_prompt env ud sc (reply_text g1)
             (monthly_sip sc / monthly_income ud * 100))) = (Raised e2 tb2, w2)
      \<and> invoke env w2 (system_message planner_agent planner_context)
          (human_message (planner_prompt env ud sc (reply_text g1) (error_msg e2))) = (g3, w3)"
  have e2: "reply_text (Raised e2 tb2) = error_msg e2" by (simp add: reply_text_def)
  from h have i3: "invoke env w2 (system_message planner_agent planner_context)
          (human_message (planner_prompt env ud sc (reply_text g1)
             (reply_text (Raised e2 tb2)))) = (g3, w3)"
    unfolding e2 by blast
  from run_multi_agent_flow_stages [OF _ _ _ i3] h
  show "run_multi_agent_flow env w0 ud sc =
            Inr ((reply_text g1, error_msg e2, reply_text g3), w3)"
    unfolding e2 by blast
next
  show "error_msg e2 \<noteq> []" by (rule error_msg_nonempty)
next
  show "create_plan env planner_agent w2 ud sc (reply_text g1) (error_msg e2) =
            respond env planner_agent w2
              (planner_prompt env ud sc (reply_text g1) (error_msg e2)) planner_context"
    by (simp add: create_plan_def)
next
  show "\<exists>pre mid post.
              planner_prompt env ud sc (reply_text g1) (error_msg e2)
                = pre @ reply_text g1 @ mid @ error_msg e2 @ post"
    by (rule planner_prompt_contains)
next
  assume "returned_visible_text g1"
  then show "reply_text g1 \<noteq> []" by (rule reply_text_nonempty)
next
  assume "returned_visible_text g3"
  then show "reply_text g3 \<noteq> []" by (rule reply_text_nonempty)
qed

theorem generator_failure_is_fail_soft_witness:
  "respond
      (scripted_environment
        (\<lambda>k. if k = 1 then Raised (ascii ''timeout'') (ascii ''Traceback'')
             else Returned (WithContent (ascii '' ok ''))))
      risk_analyst_agent 1 (ascii ''question'') risk_context
     = (error_msg (ascii ''timeout''),
        risk_analyst_agent\<lparr>conversation_history := conversation_history risk_analyst_agent
          @ [Failed (role risk_analyst_agent) (ascii ''timeout'') (ascii ''Traceback'')
               (str_nat 2)]\<rparr>,
        2)
   \<and> run_multi_agent_flow
      (scripted_environment
        (\<lambda>k. if k = 1 then Raised (ascii ''timeout'') (ascii ''Traceback'')
             else Returned (WithContent (ascii '' ok ''))))
      0 example_user_data example_sip_calc
     = Inr ((ascii ''ok'', error_msg (ascii ''timeout''), ascii ''ok''), 3)"
proof -
  let ?script = "\<lambda>k::nat. if k = 1 then Raised (ascii ''timeout'') (ascii ''Traceback'')
             else Returned (WithContent (ascii '' ok ''))"
  let ?env = "scripted_environment ?script"
  let ?ok = "Returned (WithContent (ascii '' ok ''))"
  have ok: "reply_text ?ok = ascii ''ok''"
    by (simp add: reply_text_def strip_def ascii_def is_space_def)
  have now: "now_isoformat ?env 2 = str_nat 2" by (simp add: scripted_environment_def)
  have inc: "monthly_income example_user_data \<noteq> 0" by (simp add: example_income)
  have i0: "invoke ?env 1 (system_message risk_analyst_agent risk_context)
      (human_message (ascii ''question'')) = (Raised (ascii ''timeout'') (ascii ''Traceback''), 2)"
    by (simp add: scripted_invoke)
  have i1: "invoke ?env 0 (system_message advisor_agent advisor_context)
      (human_message (advisor_prompt ?env example_user_data example_sip_calc)) = (?ok, 1)"
    by (simp add: scripted_invoke)
  have i2: "invoke ?env 1 (system_message risk_analyst_agent risk_context)
      (human_message (risk_prompt ?env example_user_data example_sip_calc (reply_text ?ok)
         (monthly_sip example_sip_calc / monthly_income example_user_data * 100)))
      = (Raised (ascii ''timeout'') (ascii ''Traceback''), 2)"
    by (simp add: scripted_invoke)
  have i3: "invoke ?env 2 (system_message planner_agent planner_context)
      (human_message (planner_prompt ?env example_user_data example_sip_calc (reply_text ?ok)
         (error_msg (ascii ''timeout'')))) = (?ok, 3)"
    by (simp add: scripted_invoke)
  note t = generator_failure_is_fail_soft
    [of ?env 1 risk_analyst_agent risk_context "ascii ''question''"
        "ascii ''timeout''" "ascii ''Traceback''" 2
        example_user_data 0 example_sip_calc ?ok 1 "ascii ''timeout''" "ascii ''Traceback''" 2
        ?ok 3]
  have "respond ?env risk_analyst_agent 1 (ascii ''question'') risk_context
     = (error_msg (ascii ''timeout''),
        risk_analyst_agent\<lparr>conversation_history := conversation_history risk_analyst_agent
          @ [Failed (role risk_analyst_agent) (ascii ''timeout'') (ascii ''Traceback'')
               (now_isoformat ?env 2)]\<rparr>,
        2)"
    using t i0 by blast
  moreover have "run_multi_agent_flow ?env 0 example_user_data example_sip_calc
     = Inr ((reply_text ?ok, error_msg (ascii ''timeout''), reply_text ?ok), 3)"
    using t inc i1 i2 i3 by blast
  ultimately show ?thesis unfolding ok now by blast
qed

text \<open>
  A generator that returns the empty text for the first and the third stage, and raises in
  the second, gives two empty texts.
\<close>

theorem generator_failure_is_fail_soft_counterexample:
  "run_multi_agent_flow
      (scripted_environment
        (\<lambda>k. if k = 1 then Raised (ascii ''timeout'') (ascii ''Traceback'')
             else Returned (WithContent [])))
      0 example_user_data example_sip_calc
     = Inr (([], error_msg (ascii ''timeout''), []), 3)"
proof -
  let ?script = "\<lambda>k::nat. if k = 1 then Raised (ascii ''timeout'') (ascii ''Traceback'')
             else Returned (WithContent [])"
  let ?env = "scripted_environment ?script"
  have e: "reply_text (Returned (WithContent [])) = []"
    by (simp add: reply_text_def strip_def)
  have r: "reply_text (Raised (ascii ''timeout'') (ascii ''Traceback'')) = error_msg (ascii ''timeout'')"
    by (simp add: reply_text_def)
  have inc: "monthly_income example_user_data \<noteq> 0" by (simp add: example_income)
  have "run_multi_agent_flow ?env 0 example_user_data example_sip_calc
     = Inr ((reply_text (Returned (WithContent [])),
             reply_text (Raised (ascii ''timeout'') (ascii ''Traceback'')),
             reply_text (Returned (WithContent []))), 3)"
  proof (rule run_multi_agent_flow_stages [OF inc])
    show "invoke ?env 0 (system_message advisor_agent advisor_context)
        (human_message (advisor_prompt ?env example_user_data example_sip_calc))
        = (Returned (WithContent []), 1)"
      by (simp add: scripted_invoke)
    show "invoke ?env 1 (system_message risk_analyst_agent risk_context)
        (human_message (risk_prompt ?env example_user_data example_sip_calc
           (reply_text (Returned (WithContent [])))
           (monthly_sip example_sip_calc / monthly_income example_user_data * 100)))
        = (Raised (ascii ''timeout'') (ascii ''Traceback''), 2)"
      by (simp add: scripted_invoke)
    show "invoke ?env 2 (system_message planner_agent planner_context)
        (human_message (planner_prompt ?env example_user_data example_sip_calc
           (reply_text (Returned (WithContent [])))
           (reply_text (Raised (ascii ''timeout'') (ascii ''Traceback'')))))
        = (Returned (WithContent []), 3)"
      by (simp add: scripted_invoke)
  qed
  then show ?thesis unfolding e r .
qed

subsection \<open>The division in the risk stage\<close>

text \<open>
  Claim C10. The risk stage divides by the monthly income before \<open>respond\<close> is called.
  With a positive income the division yields the ratio the prompt is built from, and
  \<open>run_multi_agent_flow\<close> returns three texts whatever the generator does. With an income
  of zero the risk stage raises \<open>ZeroDivisionError\<close>, and so does the run: the handler of
  \<open>respond\<close> does not cover it.
\<close>

theorem positive_income_avoids_division_error:
  "(0 < monthly_income ud \<longrightarrow>
      risk_analyze env self w1 ud sc advisor_suggestion =
        Inr (respond env self w1
              (risk_prompt env ud sc advisor_suggestion
                 (monthly_sip sc / monthly_income ud * 100))
              risk_context)
      \<and> (\<exists>a r p w'. run_multi_agent_flow env w ud sc = Inr ((a, r, p), w')))
   \<and> (monthly_income ud = 0 \<longrightarrow>
      risk_analyze env self w1 ud sc advisor_suggestion = Inl ZeroDivisionError
      \<and> run_multi_agent_flow env w ud sc = Inl ZeroDivisionError)"
proof (intro conjI impI)
  assume "0 < monthly_income ud"
  then show "risk_analyze env self w1 ud sc advisor_suggestion =
        Inr (respond env self w1
              (risk_prompt env ud sc advisor_suggestion
                 (monthly_sip sc / monthly_income ud * 100))
              risk_context)"
    by (simp add: risk_analyze_def Let_def)
next
  assume "0 < monthly_income ud"
  then have ne: "monthly_income ud \<noteq> 0" by simp
  obtain g1 w1' where i1:
    "invoke env w (system_message advisor_agent advisor_context)
        (human_message (advisor_prompt env ud sc)) = (g1, w1')"
    by (meson surj_pair)
  obtain g2 w2 where i2:
    "invoke env w1' (system_message risk_analyst_agent risk_context)
        (human_message (risk_prompt env ud sc (reply_text g1)
           (monthly_sip sc / monthly_income ud * 100))) = (g2, w2)"
    by (meson surj_pair)
  obtain g3 w3 where i3:
    "invoke env w2 (system_message planner_agent planner_context)
        (human_message (planner_prompt env ud sc (reply_text g1) (reply_text g2))) = (g3, w3)"
    by (meson surj_pair)
  from run_multi_agent_flow_stages [OF ne i1 i2 i3]
  show "\<exists>a r p w'. run_multi_agent_flow env w ud sc = Inr ((a, r, p), w')" by blast
next
  assume "monthly_income ud = 0"
  then show "risk_analyze env self w1 ud sc advisor_suggestion = Inl ZeroDivisionError"
    by (simp add: risk_analyze_def)
next
  assume "monthly_income ud = 0"
  then show "run_multi_agent_flow env w ud sc = Inl ZeroDivisionError"
    by (rule run_multi_agent_flow_zero_income)
qed

theorem positive_income_avoids_division_error_witness:
  "(\<exists>a r p w'. run_multi_agent_flow
        (scripted_environment (\<lambda>k. Raised (ascii ''timeout'') (ascii ''Traceback'')))
        0 example_user_data example_sip_calc = Inr ((a, r, p), w'))
   \<and> run_multi_agent_flow
        (scripted_environment (\<lambda>k. Raised (ascii ''timeout'') (ascii ''Traceback'')))
        0 (example_user_data\<lparr>monthly_income := 0\<rparr>) example_sip_calc = Inl ZeroDivisionError"
proof -
  let ?env = "scripted_environment (\<lambda>k. Raised (ascii ''timeout'') (ascii ''Traceback''))"
  have p: "0 < monthly_income example_user_data" by (simp add: example_income)
  have z: "monthly_income (example_user_data\<lparr>monthly_income := 0\<rparr>) = 0" by simp
  show ?thesis
    using positive_income_avoids_division_error
        [of example_user_data ?env risk_analyst_agent 1 example_sip_calc "[]" 0] p
      positive_income_avoids_division_error
        [of "example_user_data\<lparr>monthly_income := 0\<rparr>" ?env risk_analyst_agent 1
            example_sip_calc "[]" 0] z
    by blast
qed

end
